theory Spec2Isabelle
  imports Main "HOL-Library.Word"
begin

unbundle bit_operations_syntax

section \<open>Python values used by the wallpaper handler\<close>

text \<open>
  The handler \<^verbatim>\<open>generate_wallpaper\<close> of \<^verbatim>\<open>backend/server.py\<close> works on Python
  \<^verbatim>\<open>str\<close> values, on the \<^verbatim>\<open>bytes\<close> that \<^verbatim>\<open>str.encode()\<close> yields and on
  unbounded integers. A \<^verbatim>\<open>str\<close> is a sequence of Unicode code points (numbers below
  \<open>0x110000\<close>, lone surrogates included), a byte is an 8-bit word, an integer is an
  \<open>int\<close>. \<open>str\<close> turns an ASCII literal into the sequence of its code points.
\<close>

type_synonym pystr = "nat list"
type_synonym byte = "8 word"
type_synonym u32 = "32 word"

definition str :: "string \<Rightarrow> pystr" where
  "str s = map of_char s"

text \<open>The exceptions that the statements of the handler's \<^verbatim>\<open>try\<close> block can raise.\<close>

datatype py_error = UnicodeEncodeError | ValueError | ZeroDivisionError | IndexError

subsection \<open>\<^verbatim>\<open>str.lower\<close>\<close>

text \<open>
  On a string of ASCII code points \<^verbatim>\<open>str.lower\<close> maps \<open>A\<close>..\<open>Z\<close> to \<open>a\<close>..\<open>z\<close> and
  leaves every other code point alone. On a string with a code point beyond ASCII it
  follows the interpreter's Unicode case tables, which are no part of the repository:
  that mapping is the parameter \<open>unicode_lower\<close> of everything below.
\<close>

definition lower_ascii :: "nat \<Rightarrow> nat" where
  "lower_ascii c = (if 65 \<le> c \<and> c \<le> 90 then c + 32 else c)"

definition py_lower :: "(pystr \<Rightarrow> pystr) \<Rightarrow> pystr \<Rightarrow> pystr" where
  "py_lower unicode_lower s =
     (if list_all (\<lambda>c. c < 128) s then map lower_ascii s else unicode_lower s)"

subsection \<open>\<^verbatim>\<open>sub in s\<close> and \<^verbatim>\<open>s.replace(old, new)\<close>\<close>

fun startswith :: "'a list \<Rightarrow> 'a list \<Rightarrow> bool" where
  "startswith s [] = True"
| "startswith [] (p # ps) = False"
| "startswith (c # cs) (p # ps) = (c = p \<and> startswith cs ps)"

fun py_in :: "'a list \<Rightarrow> 'a list \<Rightarrow> bool" where
  "py_in sub [] = (sub = [])"
| "py_in sub (c # cs) = (startswith (c # cs) sub \<or> py_in sub cs)"

text \<open>
  \<^verbatim>\<open>replace\<close> scans from the left and rewrites every occurrence of \<open>old\<close> that does not
  overlap an earlier one. \<open>replace_at\<close> is the scan for a non-empty \<open>old\<close>; for the
  empty \<open>old\<close> Python puts \<open>new\<close> before every code point and at the end.
\<close>

fun replace_at :: "'a list \<Rightarrow> 'a list \<Rightarrow> 'a list \<Rightarrow> 'a list" where
  "replace_at old new [] = []"
| "replace_at old new (c # cs) =
     (if startswith (c # cs) old
      then new @ replace_at old new (drop (length old - 1) cs)
      else c # replace_at old new cs)"

definition py_replace :: "'a list \<Rightarrow> 'a list \<Rightarrow> 'a list \<Rightarrow> 'a list" where
  "py_replace old new s =
     (if old = [] then new @ concat (map (\<lambda>c. c # new) s) else replace_at old new s)"

subsection \<open>\<^verbatim>\<open>str.encode()\<close>: UTF-8\<close>

text \<open>
  The default codec is UTF-8 with strict error handling: a surrogate code point
  (\<open>0xD800\<close>..\<open>0xDFFF\<close>) raises \<^verbatim>\<open>UnicodeEncodeError\<close>.
\<close>

definition utf8_char :: "nat \<Rightarrow> py_error + byte list" where
  "utf8_char c =
     (if c < 0x80 then Inr [of_nat c]
      else if c < 0x800 then Inr [of_nat (0xC0 + c div 64), of_nat (0x80 + c mod 64)]
      else if 0xD800 \<le> c \<and> c \<le> 0xDFFF then Inl UnicodeEncodeError
      else if c < 0x10000 then
        Inr [of_nat (0xE0 + c div 4096), of_nat (0x80 + c div 64 mod 64),
             of_nat (0x80 + c mod 64)]
      else
        Inr [of_nat (0xF0 + c div 262144), of_nat (0x80 + c div 4096 mod 64),
             of_nat (0x80 + c div 64 mod 64), of_nat (0x80 + c mod 64)])"

fun encode :: "pystr \<Rightarrow> py_error + byte list" where
  "encode [] = Inr []"
| "encode (c # cs) =
     (case utf8_char c of
        Inl e \<Rightarrow> Inl e
      | Inr bs \<Rightarrow> (case encode cs of Inl e \<Rightarrow> Inl e | Inr rest \<Rightarrow> Inr (bs @ rest)))"

subsection \<open>\<^verbatim>\<open>hashlib.md5(data).hexdigest()\<close>\<close>

text \<open>
  The MD5 message digest (RFC 1321) of the standard library, written out so that the
  index of a given prompt can be computed: the table of sines, the rotation amounts, the
  64 steps on one 64-byte block, the padding with the message length in bits, and the
  digest as the four state words in little-endian byte order.
\<close>

definition md5_K :: "u32 list" where
  "md5_K =
  [0xd76aa478, 0xe8c7b756, 0x242070db, 0xc1bdceee,
   0xf57c0faf, 0x4787c62a, 0xa8304613, 0xfd469501,
   0x698098d8, 0x8b44f7af, 0xffff5bb1, 0x895cd7be,
   0x6b901122, 0xfd987193, 0xa679438e, 0x49b40821,
   0xf61e2562, 0xc040b340, 0x265e5a51, 0xe9b6c7aa,
   0xd62f105d, 0x02441453, 0xd8a1e681, 0xe7d3fbc8,
   0x21e1cde6, 0xc33707d6, 0xf4d50d87, 0x455a14ed,
   0xa9e3e905, 0xfcefa3f8, 0x676f02d9, 0x8d2a4c8a,
   0xfffa3942, 0x8771f681, 0x6d9d6122, 0xfde5380c,
   0xa4beea44, 0x4bdecfa9, 0xf6bb4b60, 0xbebfbc70,
   0x289b7ec6, 0xeaa127fa, 0xd4ef3085, 0x04881d05,
   0xd9d4d039, 0xe6db99e5, 0x1fa27cf8, 0xc4ac5665,
   0xf4292244, 0x432aff97, 0xab9423a7, 0xfc93a039,
   0x655b59c3, 0x8f0ccc92, 0xffeff47d, 0x85845dd1,
   0x6fa87e4f, 0xfe2ce6e0, 0xa3014314, 0x4e0811a1,
   0xf7537e82, 0xbd3af235, 0x2ad7d2bb, 0xeb86d391]"

definition md5_s :: "nat list" where
  "md5_s =
  [7, 12, 17, 22, 7, 12, 17, 22, 7, 12, 17, 22, 7, 12, 17, 22,
   5, 9, 14, 20, 5, 9, 14, 20, 5, 9, 14, 20, 5, 9, 14, 20,
   4, 11, 16, 23, 4, 11, 16, 23, 4, 11, 16, 23, 4, 11, 16, 23,
   6, 10, 15, 21, 6, 10, 15, 21, 6, 10, 15, 21, 6, 10, 15, 21]"

definition rotl32 :: "u32 \<Rightarrow> nat \<Rightarrow> u32" where
  "rotl32 x n = push_bit n x OR drop_bit (32 - n) x"

definition md5_step ::
  "u32 list \<Rightarrow> u32 \<times> u32 \<times> u32 \<times> u32 \<Rightarrow> nat \<Rightarrow> u32 \<times> u32 \<times> u32 \<times> u32" where
  "md5_step M st i =
     (case st of (A, B, C, D) \<Rightarrow>
        let (F, g) =
              (if i < 16 then ((B AND C) OR (NOT B AND D), i)
               else if i < 32 then ((D AND B) OR (NOT D AND C), (5 * i + 1) mod 16)
               else if i < 48 then (B XOR C XOR D, (3 * i + 5) mod 16)
               else (C XOR (B OR NOT D), (7 * i) mod 16));
            F' = F + A + md5_K ! i + M ! g
        in (D, B + rotl32 F' (md5_s ! i), B, C))"

fun le_word32 :: "byte list \<Rightarrow> u32" where
  "le_word32 [] = 0"
| "le_word32 (b # bs) = ucast b OR push_bit 8 (le_word32 bs)"

fun chunk_words :: "nat \<Rightarrow> byte list \<Rightarrow> u32 list" where
  "chunk_words 0 bs = []"
| "chunk_words (Suc n) bs = le_word32 (take 4 bs) # chunk_words n (drop 4 bs)"

definition md5_block :: "u32 \<times> u32 \<times> u32 \<times> u32 \<Rightarrow> byte list \<Rightarrow> u32 \<times> u32 \<times> u32 \<times> u32" where
  "md5_block st blk =
     (case st of (a0, b0, c0, d0) \<Rightarrow>
        case foldl (md5_step (chunk_words 16 blk)) st [0..<64] of (A, B, C, D) \<Rightarrow>
          (a0 + A, b0 + B, c0 + C, d0 + D))"

fun md5_blocks :: "nat \<Rightarrow> u32 \<times> u32 \<times> u32 \<times> u32 \<Rightarrow> byte list \<Rightarrow> u32 \<times> u32 \<times> u32 \<times> u32" where
  "md5_blocks 0 st bs = st"
| "md5_blocks (Suc n) st bs = md5_blocks n (md5_block st (take 64 bs)) (drop 64 bs)"

definition word_bytes :: "nat \<Rightarrow> 'a::len word \<Rightarrow> byte list" where
  "word_bytes n w = map (\<lambda>k. ucast (drop_bit (8 * k) w)) [0..<n]"

definition md5_pad :: "byte list \<Rightarrow> byte list" where
  "md5_pad msg =
     (let n = length msg
      in msg @ [0x80] @ replicate ((55 + 64 - n mod 64) mod 64) 0
           @ word_bytes 8 (of_nat (8 * n) :: 64 word))"

definition md5 :: "byte list \<Rightarrow> byte list" where
  "md5 msg =
     (let p = md5_pad msg
      in case md5_blocks (length p div 64)
                (0x67452301, 0xefcdab89, 0x98badcfe, 0x10325476) p of
           (A, B, C, D) \<Rightarrow> concat (map (word_bytes 4) [A, B, C, D]))"

text \<open>\<^verbatim>\<open>hexdigest\<close> writes every byte as two lower-case hexadecimal digits.\<close>

definition hex_digit :: "nat \<Rightarrow> nat" where
  "hex_digit n = (if n < 10 then 48 + n else 87 + n)"

definition hexdigest :: "byte list \<Rightarrow> pystr" where
  "hexdigest bs = concat (map (\<lambda>b. [hex_digit (unat b div 16), hex_digit (unat b mod 16)]) bs)"

subsection \<open>\<^verbatim>\<open>int(s, 16)\<close>, \<^verbatim>\<open>%\<close> and indexing\<close>

text \<open>
  \<^verbatim>\<open>int(s, 16)\<close> on a string of hexadecimal digits; a string that is empty or holds any
  other code point raises \<^verbatim>\<open>ValueError\<close>. (Python also reads a sign, surrounding
  white space, a \<^verbatim>\<open>0x\<close> prefix and underscores between digits; they are
  \<^verbatim>\<open>ValueError\<close> here, and no digest contains them.)
\<close>

definition hex_value :: "nat \<Rightarrow> int option" where
  "hex_value c =
     (if 48 \<le> c \<and> c \<le> 57 then Some (int c - 48)
      else if 97 \<le> c \<and> c \<le> 102 then Some (int c - 87)
      else if 65 \<le> c \<and> c \<le> 70 then Some (int c - 55)
      else None)"

fun int16_digits :: "int \<Rightarrow> pystr \<Rightarrow> py_error + int" where
  "int16_digits acc [] = Inr acc"
| "int16_digits acc (c # cs) =
     (case hex_value c of
        None \<Rightarrow> Inl ValueError
      | Some d \<Rightarrow> int16_digits (16 * acc + d) cs)"

definition py_int16 :: "pystr \<Rightarrow> py_error + int" where
  "py_int16 s = (if s = [] then Inl ValueError else int16_digits 0 s)"

text \<open>Python's \<^verbatim>\<open>%\<close> takes the sign of the divisor, as \<open>mod\<close> on \<open>int\<close> does.\<close>

definition py_mod :: "int \<Rightarrow> int \<Rightarrow> py_error + int" where
  "py_mod a b = (if b = 0 then Inl ZeroDivisionError else Inr (a mod b))"

text \<open>\<^verbatim>\<open>xs[i]\<close>: a negative index counts from the end.\<close>

definition py_getitem :: "'a list \<Rightarrow> int \<Rightarrow> py_error + 'a" where
  "py_getitem xs i =
     (if 0 \<le> i \<and> i < int (length xs) then Inr (xs ! nat i)
      else if i < 0 \<and> - int (length xs) \<le> i then Inr (xs ! nat (int (length xs) + i))
      else Inl IndexError)"

section \<open>The handler \<^verbatim>\<open>generate_wallpaper\<close>\<close>

record WallpaperRequest =
  prompt :: pystr
  aspect_ratio :: pystr
  style :: "pystr option"

text \<open>
  In the response, \<open>error\<close> holds the caught exception: the text that \<^verbatim>\<open>str(e)\<close>
  makes of it is not modelled.
\<close>

record WallpaperResponse =
  success :: bool
  image_url :: "pystr option"
  prompt :: pystr
  aspect_ratio :: pystr
  error :: "py_error option"

text \<open>
  The dict \<^verbatim>\<open>sample_wallpapers\<close> keeps the order in which its keys are written, and
  the loop over \<^verbatim>\<open>items()\<close> follows it: an association list.
\<close>

definition sample_wallpapers :: "(pystr \<times> pystr list) list" where
  "sample_wallpapers =
   [(str ''nature'',
      [str ''https://images.unsplash.com/photo-1506905925346-21bda4d32df4?w=512&h=910&fit=crop&auto=format'',
       str ''https://images.unsplash.com/photo-1441974231531-c6227db76b6e?w=512&h=910&fit=crop&auto=format'',
       str ''https://images.unsplash.com/photo-1501594907352-04cda38ebc29?w=512&h=910&fit=crop&auto=format'']),
    (str ''city'',
      [str ''https://images.unsplash.com/photo-1449824913935-59a10b8d2000?w=512&h=910&fit=crop&auto=format'',
       str ''https://images.unsplash.com/photo-1519501025264-65ba15a82390?w=512&h=910&fit=crop&auto=format'']),
    (str ''abstract'',
      [str ''https://images.unsplash.com/photo-1618005182384-a83a8bd57fbe?w=512&h=910&fit=crop&auto=format'',
       str ''https://images.unsplash.com/photo-1557683304-673a23048d34?w=512&h=910&fit=crop&auto=format'']),
    (str ''space'',
      [str ''https://images.unsplash.com/photo-1446776877081-d282a0f896e2?w=512&h=910&fit=crop&auto=format'',
       str ''https://images.unsplash.com/photo-1419242902214-272b3f66ee7a?w=512&h=910&fit=crop&auto=format'']),
    (str ''dark'',
      [str ''https://images.unsplash.com/photo-1618556450991-2f1af64e8191?w=512&h=910&fit=crop&auto=format'',
       str ''https://images.unsplash.com/photo-1547036967-23d11aacaee0?w=512&h=910&fit=crop&auto=format'']),
    (str ''minimal'',
      [str ''https://images.unsplash.com/photo-1557683316-973673baf926?w=512&h=910&fit=crop&auto=format'',
       str ''https://images.unsplash.com/photo-1574169208507-84376144848b?w=512&h=910&fit=crop&auto=format''])]"

definition default_wallpapers :: "pystr list" where
  "default_wallpapers =
   [str ''https://images.unsplash.com/photo-1506905925346-21bda4d32df4?w=512&h=910&fit=crop&auto=format'',
    str ''https://images.unsplash.com/photo-1441974231531-c6227db76b6e?w=512&h=910&fit=crop&auto=format'',
    str ''https://images.unsplash.com/photo-1449824913935-59a10b8d2000?w=512&h=910&fit=crop&auto=format'',
    str ''https://images.unsplash.com/photo-1618005182384-a83a8bd57fbe?w=512&h=910&fit=crop&auto=format'']"

text \<open>
  The body of the \<^verbatim>\<open>try\<close> block, named by the local variables it assigns.
  \<^verbatim>\<open>request.style or ""\<close> is the empty string for an absent and for an empty style.
\<close>

definition combined_text :: "(pystr \<Rightarrow> pystr) \<Rightarrow> 'a WallpaperRequest_scheme \<Rightarrow> pystr" where
  "combined_text unicode_lower request =
     (let prompt_lower = py_lower unicode_lower (WallpaperRequest.prompt request);
          style_lower = py_lower unicode_lower
                          (case style request of None \<Rightarrow> str '''' | Some s \<Rightarrow> s)
      in prompt_lower @ str '' '' @ style_lower)"

text \<open>
  The loop \<^verbatim>\<open>for category, wallpapers in sample_wallpapers.items()\<close>: the first category
  found in the text replaces the current selection and the loop breaks.
\<close>

fun match_category :: "(pystr \<times> pystr list) list \<Rightarrow> pystr \<Rightarrow> pystr list \<Rightarrow> pystr list" where
  "match_category [] combined selected = selected"
| "match_category ((category, wallpapers) # rest) combined selected =
     (if py_in category combined then wallpapers else match_category rest combined selected)"

definition selected_wallpapers ::
  "(pystr \<Rightarrow> pystr) \<Rightarrow> 'a WallpaperRequest_scheme \<Rightarrow> pystr list" where
  "selected_wallpapers unicode_lower request =
     match_category sample_wallpapers (combined_text unicode_lower request) default_wallpapers"

definition prompt_hash :: "pystr \<Rightarrow> py_error + pystr" where
  "prompt_hash p = (case encode p of Inl e \<Rightarrow> Inl e | Inr data \<Rightarrow> Inr (hexdigest (md5 data)))"

text \<open>\<^verbatim>\<open>int(prompt_hash[:2], 16) % len(bucket)\<close> for the prompt and a bucket.\<close>

definition bucket_index :: "pystr \<Rightarrow> pystr list \<Rightarrow> py_error + int" where
  "bucket_index p bucket =
     (case prompt_hash p of
        Inl e \<Rightarrow> Inl e
      | Inr h \<Rightarrow>
          (case py_int16 (take 2 h) of
             Inl e \<Rightarrow> Inl e
           | Inr n \<Rightarrow> py_mod n (int (length bucket))))"

definition wallpaper_index ::
  "(pystr \<Rightarrow> pystr) \<Rightarrow> 'a WallpaperRequest_scheme \<Rightarrow> py_error + int" where
  "wallpaper_index unicode_lower request =
     bucket_index (WallpaperRequest.prompt request) (selected_wallpapers unicode_lower request)"

text \<open>The \<^verbatim>\<open>if\<close>/\<^verbatim>\<open>elif\<close> chain on \<^verbatim>\<open>request.aspect_ratio\<close>.\<close>

definition adjust_dimensions :: "pystr \<Rightarrow> pystr \<Rightarrow> pystr" where
  "adjust_dimensions ratio w =
     (if ratio = str ''16:9'' then py_replace (str ''w=512&h=910'') (str ''w=910&h=512'') w
      else if ratio = str ''1:1'' then py_replace (str ''w=512&h=910'') (str ''w=512&h=512'') w
      else if ratio = str ''3:4'' then py_replace (str ''w=512&h=910'') (str ''w=512&h=683'') w
      else w)"

text \<open>
  \<^verbatim>\<open>selected_wallpaper = selected_wallpapers[wallpaper_index]\<close>, before the dimensions
  are adjusted.
\<close>

definition selected_wallpaper ::
  "(pystr \<Rightarrow> pystr) \<Rightarrow> 'a WallpaperRequest_scheme \<Rightarrow> py_error + pystr" where
  "selected_wallpaper unicode_lower request =
     (case wallpaper_index unicode_lower request of
        Inl e \<Rightarrow> Inl e
      | Inr i \<Rightarrow> py_getitem (selected_wallpapers unicode_lower request) i)"

text \<open>
  The handler: the response of the \<^verbatim>\<open>try\<close> block when it completes, the response of
  the \<^verbatim>\<open>except Exception\<close> clause when a statement of the block raises.
\<close>

definition generate_wallpaper ::
  "(pystr \<Rightarrow> pystr) \<Rightarrow> 'a WallpaperRequest_scheme \<Rightarrow> WallpaperResponse" where
  "generate_wallpaper unicode_lower request =
     (case selected_wallpaper unicode_lower request of
        Inr w \<Rightarrow>
          \<lparr>success = True,
           image_url = Some (adjust_dimensions (WallpaperRequest.aspect_ratio request) w),
           prompt = WallpaperRequest.prompt request,
           aspect_ratio = WallpaperRequest.aspect_ratio request, error = None\<rparr>
      | Inl e \<Rightarrow>
          \<lparr>success = False, image_url = None,
           prompt = WallpaperRequest.prompt request,
           aspect_ratio = WallpaperRequest.aspect_ratio request, error = Some e\<rparr>)"

text \<open>The request that \<^verbatim>\<open>test_wallpaper_api.py\<close> posts.\<close>

definition test_data :: WallpaperRequest where
  "test_data =
     \<lparr>WallpaperRequest.prompt = str ''Beautiful sunset over mountains with purple sky'',
      WallpaperRequest.aspect_ratio = str ''9:16'',
      style = Some (str ''nature'')\<rparr>"

section \<open>Substring test, category loop, digest and index: general facts\<close>

lemma startswith_iff: "startswith s p \<longleftrightarrow> (\<exists>r. s = p @ r)"
  by (induction s p rule: startswith.induct) auto

lemma py_in_iff: "py_in sub s \<longleftrightarrow> (\<exists>a b. s = a @ sub @ b)"
proof (induction s)
  case Nil
  then show ?case by auto
next
  case (Cons c cs)
  show ?case
  proof
    assume "py_in sub (c # cs)"
    then consider "startswith (c # cs) sub" | "py_in sub cs" by auto
    then show "\<exists>a b. c # cs = a @ sub @ b"
    proof cases
      case 1
      then obtain r where "c # cs = sub @ r" by (auto simp: startswith_iff)
      then have "c # cs = [] @ sub @ r" by simp
      then show ?thesis by blast
    next
      case 2
      then obtain a b where "cs = a @ sub @ b" using Cons.IH by auto
      then have "c # cs = (c # a) @ sub @ b" by simp
      then show ?thesis by blast
    qed
  next
    assume "\<exists>a b. c # cs = a @ sub @ b"
    then obtain a b where ab: "c # cs = a @ sub @ b" by blast
    show "py_in sub (c # cs)"
    proof (cases a)
      case Nil
      with ab have "startswith (c # cs) sub" by (auto simp: startswith_iff)
      then show ?thesis by simp
    next
      case (Cons x a')
      with ab have "cs = a' @ sub @ b" by simp
      then have "py_in sub cs" using Cons.IH by blast
      then show ?thesis by simp
    qed
  qed
qed

lemma match_category_find:
  "match_category cat combined sel =
     (case find (\<lambda>(c, ws). py_in c combined) cat of None \<Rightarrow> sel | Some (c, ws) \<Rightarrow> ws)"
  by (induction cat combined sel rule: match_category.induct) auto

lemma match_category_mem: "match_category cat combined sel \<in> set (sel # map snd cat)"
  by (induction cat combined sel rule: match_category.induct) auto

lemma hex_value_hex_digit: "n < 16 \<Longrightarrow> hex_value (hex_digit n) = Some (int n)"
  by (auto simp: hex_value_def hex_digit_def)

lemma py_int16_byte:
  "py_int16 [hex_digit (unat (b::byte) div 16), hex_digit (unat b mod 16)] = Inr (uint b)"
proof -
  have "unat b < 256" using unsigned_less [of b, where ?'a = nat] by simp
  then have d: "unat b div 16 < 16" by simp
  have m: "unat b mod 16 < 16" by simp
  have "16 * int (unat b div 16) + int (unat b mod 16) = int (unat b)"
    by (simp add: zdiv_int zmod_int)
  then show ?thesis
    by (simp add: py_int16_def hex_value_hex_digit [OF d] hex_value_hex_digit [OF m])
qed

lemma length_word_bytes: "length (word_bytes n w) = n"
  by (simp add: word_bytes_def)

lemma length_md5: "length (md5 data) = 16"
  by (simp add: md5_def Let_def length_word_bytes split: prod.splits)

lemma length_hexdigest: "length (hexdigest bs) = 2 * length bs"
  by (induction bs) (simp_all add: hexdigest_def)

lemma take2_hexdigest:
  "bs \<noteq> [] \<Longrightarrow> take 2 (hexdigest bs) = [hex_digit (unat (hd bs) div 16), hex_digit (unat (hd bs) mod 16)]"
  by (cases bs) (simp_all add: hexdigest_def)

lemma utf8_char_cases:
  "utf8_char c = Inl UnicodeEncodeError \<and> 0xD800 \<le> c \<and> c \<le> 0xDFFF
   \<or> (\<exists>bs. utf8_char c = Inr bs) \<and> (c < 0xD800 \<or> 0xDFFF < c)"
  by (auto simp: utf8_char_def)

lemma encode_Inl: "encode p = Inl e \<Longrightarrow> e = UnicodeEncodeError"
proof (induction p)
  case Nil
  then show ?case by simp
next
  case (Cons c cs)
  then show ?case
    using utf8_char_cases [of c] by (auto split: sum.splits)
qed

lemma encode_Inr_iff:
  "(\<exists>data. encode p = Inr data) \<longleftrightarrow> (\<forall>c\<in>set p. c < 0xD800 \<or> 0xDFFF < c)"
proof (induction p)
  case Nil
  then show ?case by simp
next
  case (Cons c cs)
  show ?case
    using utf8_char_cases [of c] Cons.IH by (auto split: sum.splits)
qed

lemma py_mod_range:
  "0 < b \<Longrightarrow> \<exists>i. py_mod a b = Inr i \<and> 0 \<le> i \<and> i < b \<and> i = a mod b"
  by (simp add: py_mod_def)

lemma py_getitem_range:
  "0 \<le> i \<Longrightarrow> i < int (length xs) \<Longrightarrow> py_getitem xs i = Inr (xs ! nat i)"
  by (simp add: py_getitem_def)

lemma bucket_index_Inr:
  assumes "encode p = Inr data" and "bucket \<noteq> []"
  shows "bucket_index p bucket = Inr (uint (hd (md5 data)) mod int (length bucket))"
proof -
  have ne: "md5 data \<noteq> []" using length_md5 [of data] by auto
  have "py_int16 (take 2 (hexdigest (md5 data))) = Inr (uint (hd (md5 data)))"
    by (simp only: take2_hexdigest [OF ne] py_int16_byte)
  with assms show ?thesis
    by (simp add: bucket_index_def prompt_hash_def py_mod_def)
qed

lemma bucket_index_Inl: "encode p = Inl e \<Longrightarrow> bucket_index p bucket = Inl e"
  by (simp add: bucket_index_def prompt_hash_def)

lemma buckets_nonempty:
  "bucket \<in> set (default_wallpapers # map snd sample_wallpapers) \<Longrightarrow> bucket \<noteq> []"
  by (auto simp: default_wallpapers_def sample_wallpapers_def)

lemma selected_wallpapers_mem:
  "selected_wallpapers ul r \<in> set (default_wallpapers # map snd sample_wallpapers)"
  unfolding selected_wallpapers_def by (rule match_category_mem)

lemma selected_wallpapers_nonempty: "selected_wallpapers ul r \<noteq> []"
  using selected_wallpapers_mem by (rule buckets_nonempty)

lemma selected_wallpaper_Inr:
  assumes "encode (WallpaperRequest.prompt r) = Inr data"
  shows "selected_wallpaper ul r =
           Inr (selected_wallpapers ul r !
                  nat (uint (hd (md5 data)) mod int (length (selected_wallpapers ul r))))"
proof -
  let ?b = "selected_wallpapers ul r"
  let ?i = "uint (hd (md5 data)) mod int (length ?b)"
  have len: "0 < int (length ?b)" using selected_wallpapers_nonempty [of ul r] by simp
  have idx: "wallpaper_index ul r = Inr ?i"
    unfolding wallpaper_index_def
    by (rule bucket_index_Inr [OF assms selected_wallpapers_nonempty])
  have "0 \<le> ?i" and "?i < int (length ?b)" using len by simp_all
  then have "py_getitem ?b ?i = Inr (?b ! nat ?i)" by (rule py_getitem_range)
  with idx show ?thesis by (simp add: selected_wallpaper_def)
qed

lemma selected_wallpaper_Inl:
  "encode (WallpaperRequest.prompt r) = Inl e \<Longrightarrow> selected_wallpaper ul r = Inl e"
  by (simp add: selected_wallpaper_def wallpaper_index_def bucket_index_Inl)

section \<open>The posted test request, evaluated\<close>

lemma ph_test:
  "prompt_hash (str ''Beautiful sunset over mountains with purple sky'') =
     Inr (str ''e5f7703839793df451307b20b73b41be'')"
  by code_simp

lemma ph_empty: "prompt_hash (str '''') = Inr (str ''d41d8cd98f00b204e9800998ecf8427e'')"
  by code_simp

lemma ph_quantum:
  "prompt_hash (str ''quantum physics diagram'') = Inr (str ''840bcd488af811692064588d0894a4e3'')"
  by code_simp

lemma combined_test:
  "combined_text ul test_data = str ''beautiful sunset over mountains with purple sky nature''"
  by (simp add: combined_text_def test_data_def py_lower_def lower_ascii_def str_def)

lemma selected_test: "selected_wallpapers ul test_data = snd (sample_wallpapers ! 0)"
  unfolding selected_wallpapers_def combined_test
  by (simp add: sample_wallpapers_def str_def)

lemma index_test: "wallpaper_index ul test_data = Inr 1"
  unfolding wallpaper_index_def selected_test
  by (simp add: test_data_def bucket_index_def ph_test sample_wallpapers_def)
     (simp add: str_def py_int16_def hex_value_def py_mod_def)

lemma response_test:
  "generate_wallpaper ul test_data =
     \<lparr>success = True,
      image_url = Some (str ''https://images.unsplash.com/photo-1441974231531-c6227db76b6e?w=512&h=910&fit=crop&auto=format''),
      prompt = str ''Beautiful sunset over mountains with purple sky'',
      aspect_ratio = str ''9:16'', error = None\<rparr>"
  unfolding generate_wallpaper_def selected_wallpaper_def index_test selected_test
  by (simp add: sample_wallpapers_def py_getitem_def test_data_def adjust_dimensions_def)
     (simp add: str_def)

section \<open>The claims\<close>

text \<open>
  C2 (index selection). For a prompt that \<^verbatim>\<open>encode()\<close> accepts, the digest of the
  encoded prompt, as sent and not lower-cased, has 16 bytes (128 bits) and 32
  hexadecimal digits; \<^verbatim>\<open>int(prompt_hash[:2], 16)\<close> is the value of its first byte, and
  the index is that value modulo the length of the selected bucket. For the request of
  the test script the digest is \<open>e5f7\<dots>\<close>, the bucket is the one of \<open>nature\<close> and the
  index is \<open>229 mod 3 = 1\<close>.
\<close>

theorem wallpaper_index_md5:
  "(\<forall>data. encode (WallpaperRequest.prompt r) = Inr data \<longrightarrow>
      length (md5 data) = 16
      \<and> prompt_hash (WallpaperRequest.prompt r) = Inr (hexdigest (md5 data))
      \<and> length (hexdigest (md5 data)) = 32
      \<and> py_int16 (take 2 (hexdigest (md5 data))) = Inr (uint (hd (md5 data)))
      \<and> wallpaper_index ul r
            = Inr (uint (hd (md5 data)) mod int (length (selected_wallpapers ul r))))
   \<and> prompt_hash (WallpaperRequest.prompt test_data) = Inr (str ''e5f7703839793df451307b20b73b41be'')
   \<and> selected_wallpapers ul test_data = snd (sample_wallpapers ! 0)
   \<and> fst (sample_wallpapers ! 0) = str ''nature''
   \<and> wallpaper_index ul test_data = Inr (229 mod 3)
   \<and> image_url (generate_wallpaper ul test_data) = Some (snd (sample_wallpapers ! 0) ! 1)"
proof -
  have gen: "length (md5 data) = 16
      \<and> prompt_hash (WallpaperRequest.prompt r) = Inr (hexdigest (md5 data))
      \<and> length (hexdigest (md5 data)) = 32
      \<and> py_int16 (take 2 (hexdigest (md5 data))) = Inr (uint (hd (md5 data)))
      \<and> wallpaper_index ul r
            = Inr (uint (hd (md5 data)) mod int (length (selected_wallpapers ul r)))"
    if enc: "encode (WallpaperRequest.prompt r) = Inr data" for data
  proof -
    have ne: "md5 data \<noteq> []" using length_md5 [of data] by auto
    have "py_int16 (take 2 (hexdigest (md5 data))) = Inr (uint (hd (md5 data)))"
      by (simp only: take2_hexdigest [OF ne] py_int16_byte)
    moreover have "wallpaper_index ul r
            = Inr (uint (hd (md5 data)) mod int (length (selected_wallpapers ul r)))"
      unfolding wallpaper_index_def
      by (rule bucket_index_Inr [OF enc selected_wallpapers_nonempty])
    ultimately show ?thesis
      using enc by (simp add: length_md5 length_hexdigest prompt_hash_def)
  qed
  have "prompt_hash (WallpaperRequest.prompt test_data) = Inr (str ''e5f7703839793df451307b20b73b41be'')"
    by (simp add: test_data_def ph_test)
  moreover have "fst (sample_wallpapers ! 0) = str ''nature''"
    by (simp add: sample_wallpapers_def)
  moreover have "image_url (generate_wallpaper ul test_data) = Some (snd (sample_wallpapers ! 0) ! 1)"
    by (simp add: response_test sample_wallpapers_def)
  ultimately show ?thesis
    using gen selected_test [of ul] index_test [of ul] by simp
qed

theorem wallpaper_index_md5_witness:
  "encode (WallpaperRequest.prompt test_data) = Inr (map of_char ''Beautiful sunset over mountains with purple sky'')
   \<and> wallpaper_index id test_data = Inr 1
   \<and> uint (hd (md5 (map of_char ''Beautiful sunset over mountains with purple sky''))) = 0xe5
   \<and> length (selected_wallpapers id test_data) = 3"
proof -
  let ?data = "map of_char ''Beautiful sunset over mountains with purple sky'' :: byte list"
  have enc: "encode (WallpaperRequest.prompt test_data) = Inr ?data"
    by (simp add: test_data_def str_def utf8_char_def)
  have len: "length (selected_wallpapers id test_data) = 3"
    by (simp add: selected_test sample_wallpapers_def)
  have ph: "hexdigest (md5 ?data) = str ''e5f7703839793df451307b20b73b41be''"
    using ph_test enc by (simp add: prompt_hash_def test_data_def)
  from wallpaper_index_md5 [of test_data id] enc
  have *: "py_int16 (take 2 (hexdigest (md5 ?data))) = Inr (uint (hd (md5 ?data)))"
    and **: "wallpaper_index id test_data = Inr (uint (hd (md5 ?data)) mod int (length (selected_wallpapers id test_data)))"
    by blast+
  have "py_int16 (take 2 (hexdigest (md5 ?data))) = Inr 0xe5"
    unfolding ph by (simp add: str_def py_int16_def hex_value_def)
  with * have b: "uint (hd (md5 ?data)) = 0xe5" by simp
  with ** len enc show ?thesis by simp
qed

lemma selected_wallpapers_find:
  "selected_wallpapers ul r =
     (case find (\<lambda>(category, wallpapers). \<exists>a b. combined_text ul r = a @ category @ b)
             sample_wallpapers of
        None \<Rightarrow> default_wallpapers
      | Some (category, wallpapers) \<Rightarrow> wallpapers)"
  by (simp add: selected_wallpapers_def match_category_find py_in_iff)

lemma categories: 
  "map fst sample_wallpapers =
     [str ''nature'', str ''city'', str ''abstract'', str ''space'', str ''dark'', str ''minimal'']"
  by (simp add: sample_wallpapers_def)

text \<open>
  C3 (category precedence). The matching text is the lower-cased prompt, one space and
  the lower-cased style (the empty string for an absent style). The catalog lists
  \<open>nature\<close>, \<open>city\<close>, \<open>abstract\<close>, \<open>space\<close>, \<open>dark\<close>, \<open>minimal\<close> in this order,
  and the selected bucket is that of the first of them that occurs in the text as a
  substring, the default bucket if none does. \<open>Cityscape at night\<close> selects \<open>city\<close>;
  the prompt \<open>minimal lines\<close> with style \<open>Dark\<close> selects \<open>dark\<close>, which is declared
  before \<open>minimal\<close>.
\<close>

theorem category_precedence:
  "combined_text ul r
     = py_lower ul (WallpaperRequest.prompt r) @ str '' ''
         @ py_lower ul (case style r of None \<Rightarrow> str '''' | Some s \<Rightarrow> s)
   \<and> map fst sample_wallpapers
     = [str ''nature'', str ''city'', str ''abstract'', str ''space'', str ''dark'', str ''minimal'']
   \<and> selected_wallpapers ul r
     = (case find (\<lambda>(category, wallpapers). \<exists>a b. combined_text ul r = a @ category @ b)
               sample_wallpapers of
          None \<Rightarrow> default_wallpapers
        | Some (category, wallpapers) \<Rightarrow> wallpapers)
   \<and> selected_wallpapers ul
        \<lparr>WallpaperRequest.prompt = str ''Cityscape at night'',
         WallpaperRequest.aspect_ratio = str ''9:16'', style = None\<rparr>
     = snd (sample_wallpapers ! 1)
   \<and> selected_wallpapers ul
        \<lparr>WallpaperRequest.prompt = str ''minimal lines'',
         WallpaperRequest.aspect_ratio = str ''9:16'', style = Some (str ''Dark'')\<rparr>
     = snd (sample_wallpapers ! 4)"
proof -
  have c1: "combined_text ul
        \<lparr>WallpaperRequest.prompt = str ''Cityscape at night'',
         WallpaperRequest.aspect_ratio = str ''9:16'', style = None\<rparr> = str ''cityscape at night ''"
    by (simp add: combined_text_def py_lower_def lower_ascii_def str_def)
  have c2: "combined_text ul
        \<lparr>WallpaperRequest.prompt = str ''minimal lines'',
         WallpaperRequest.aspect_ratio = str ''9:16'', style = Some (str ''Dark'')\<rparr> = str ''minimal lines dark''"
    by (simp add: combined_text_def py_lower_def lower_ascii_def str_def)
  have s1: "selected_wallpapers ul
        \<lparr>WallpaperRequest.prompt = str ''Cityscape at night'',
         WallpaperRequest.aspect_ratio = str ''9:16'', style = None\<rparr>
     = snd (sample_wallpapers ! 1)"
    unfolding selected_wallpapers_def c1 by (simp add: sample_wallpapers_def str_def)
  have s2: "selected_wallpapers ul
        \<lparr>WallpaperRequest.prompt = str ''minimal lines'',
         WallpaperRequest.aspect_ratio = str ''9:16'', style = Some (str ''Dark'')\<rparr>
     = snd (sample_wallpapers ! 4)"
    unfolding selected_wallpapers_def c2 by (simp add: sample_wallpapers_def str_def)
  have c: "combined_text ul r
     = py_lower ul (WallpaperRequest.prompt r) @ str '' ''
         @ py_lower ul (case style r of None \<Rightarrow> str '''' | Some s \<Rightarrow> s)"
    by (simp add: combined_text_def)
  show ?thesis
    using c categories selected_wallpapers_find [of ul r] s1 s2 by blast
qed

lemma py_getitem_mem: "py_getitem xs i = Inr w \<Longrightarrow> w \<in> set xs"
  by (auto simp: py_getitem_def split: if_splits)

lemma selected_wallpaper_mem:
  "selected_wallpaper ul r = Inr w \<Longrightarrow> w \<in> set (selected_wallpapers ul r)"
  by (auto simp: selected_wallpaper_def split: sum.splits dest: py_getitem_mem)

lemma quantum_combined:
  "combined_text ul \<lparr>WallpaperRequest.prompt = str ''quantum physics diagram'',
      WallpaperRequest.aspect_ratio = ar, style = None\<rparr> = str ''quantum physics diagram ''"
  by (simp add: combined_text_def py_lower_def lower_ascii_def str_def)

lemma quantum_selected:
  "selected_wallpapers ul \<lparr>WallpaperRequest.prompt = str ''quantum physics diagram'',
      WallpaperRequest.aspect_ratio = ar, style = None\<rparr> = default_wallpapers"
  unfolding selected_wallpapers_def quantum_combined by (simp add: sample_wallpapers_def str_def)

lemma quantum_index:
  "bucket_index (str ''quantum physics diagram'') default_wallpapers = Inr 0"
  by (simp add: bucket_index_def ph_quantum default_wallpapers_def)
     (simp add: str_def py_int16_def hex_value_def py_mod_def)

lemma quantum_response:
  "generate_wallpaper ul \<lparr>WallpaperRequest.prompt = str ''quantum physics diagram'',
      WallpaperRequest.aspect_ratio = str ''9:16'', style = None\<rparr> =
     \<lparr>success = True,
      image_url = Some (str ''https://images.unsplash.com/photo-1506905925346-21bda4d32df4?w=512&h=910&fit=crop&auto=format''),
      prompt = str ''quantum physics diagram'', aspect_ratio = str ''9:16'', error = None\<rparr>"
  unfolding generate_wallpaper_def selected_wallpaper_def wallpaper_index_def quantum_selected
  by (simp add: quantum_index)
     (simp add: default_wallpapers_def py_getitem_def adjust_dimensions_def str_def)

text \<open>
  C6 (default fallback). When no category name occurs in the matching text, the
  selected bucket is \<^verbatim>\<open>default_wallpapers\<close>, and the image of the response is a
  template of that bucket with its dimensions adjusted. The prompt
  \<open>quantum physics diagram\<close> without a style is such a request: it gets the first
  default wallpaper.
\<close>

theorem default_fallback:
  "((\<forall>category \<in> set (map fst sample_wallpapers).
        \<not> (\<exists>a b. combined_text ul r = a @ category @ b)) \<longrightarrow>
      selected_wallpapers ul r = default_wallpapers
      \<and> (\<forall>w. selected_wallpaper ul r = Inr w \<longrightarrow> w \<in> set default_wallpapers)
      \<and> (\<forall>u. image_url (generate_wallpaper ul r) = Some u \<longrightarrow>
            (\<exists>w \<in> set default_wallpapers.
               u = adjust_dimensions (WallpaperRequest.aspect_ratio r) w)))
   \<and> selected_wallpapers ul
        \<lparr>WallpaperRequest.prompt = str ''quantum physics diagram'',
         WallpaperRequest.aspect_ratio = str ''9:16'', style = None\<rparr> = default_wallpapers
   \<and> image_url (generate_wallpaper ul
        \<lparr>WallpaperRequest.prompt = str ''quantum physics diagram'',
         WallpaperRequest.aspect_ratio = str ''9:16'', style = None\<rparr>)
       = Some (default_wallpapers ! 0)"
proof -
  have d0: "default_wallpapers ! 0 = str ''https://images.unsplash.com/photo-1506905925346-21bda4d32df4?w=512&h=910&fit=crop&auto=format''"
    by (simp add: default_wallpapers_def)
  have gen: "selected_wallpapers ul r = default_wallpapers
      \<and> (\<forall>w. selected_wallpaper ul r = Inr w \<longrightarrow> w \<in> set default_wallpapers)
      \<and> (\<forall>u. image_url (generate_wallpaper ul r) = Some u \<longrightarrow>
            (\<exists>w \<in> set default_wallpapers.
               u = adjust_dimensions (WallpaperRequest.aspect_ratio r) w))"
    if none: "\<forall>category \<in> set (map fst sample_wallpapers).
        \<not> (\<exists>a b. combined_text ul r = a @ category @ b)"
  proof -
    have "\<not> (case x of (category, wallpapers) \<Rightarrow> \<exists>a b. combined_text ul r = a @ category @ b)"
      if "x \<in> set sample_wallpapers" for x
    proof -
      from that have "fst x \<in> set (map fst sample_wallpapers)" by simp
      with none have "\<not> (\<exists>a b. combined_text ul r = a @ fst x @ b)" by blast
      then show ?thesis by (simp add: case_prod_beta)
    qed
    then have "find (\<lambda>(category, wallpapers). \<exists>a b. combined_text ul r = a @ category @ b)
            sample_wallpapers = None"
      unfolding find_None_iff by blast
    then have sel: "selected_wallpapers ul r = default_wallpapers"
      by (simp add: selected_wallpapers_find)
    have mem: "w \<in> set default_wallpapers" if "selected_wallpaper ul r = Inr w" for w
      using selected_wallpaper_mem [OF that] sel by simp
    have "\<exists>w \<in> set default_wallpapers. u = adjust_dimensions (WallpaperRequest.aspect_ratio r) w"
      if "image_url (generate_wallpaper ul r) = Some u" for u
      using that mem by (auto simp: generate_wallpaper_def split: sum.splits)
    with sel mem show ?thesis by blast
  qed
  show ?thesis
    using gen by (simp add: quantum_selected quantum_response d0)
qed

theorem default_fallback_witness:
  "list_all (\<lambda>category. \<not> py_in category
        (combined_text id
           \<lparr>WallpaperRequest.prompt = str ''quantum physics diagram'',
            WallpaperRequest.aspect_ratio = str ''9:16'', style = None\<rparr>))
      (map fst sample_wallpapers)
   \<and> selected_wallpapers id
        \<lparr>WallpaperRequest.prompt = str ''quantum physics diagram'',
         WallpaperRequest.aspect_ratio = str ''9:16'', style = None\<rparr> = default_wallpapers
   \<and> image_url (generate_wallpaper id
        \<lparr>WallpaperRequest.prompt = str ''quantum physics diagram'',
         WallpaperRequest.aspect_ratio = str ''9:16'', style = None\<rparr>)
       = Some (str ''https://images.unsplash.com/photo-1506905925346-21bda4d32df4?w=512&h=910&fit=crop&auto=format'')"
proof -
  let ?r = "\<lparr>WallpaperRequest.prompt = str ''quantum physics diagram'',
             WallpaperRequest.aspect_ratio = str ''9:16'', style = None\<rparr>"
  have ex: "list_all (\<lambda>category. \<not> py_in category (combined_text id ?r))
              (map fst sample_wallpapers)"
    unfolding quantum_combined by (simp add: sample_wallpapers_def str_def)
  then have none: "\<forall>category \<in> set (map fst sample_wallpapers).
        \<not> (\<exists>a b. combined_text id ?r = a @ category @ b)"
    unfolding py_in_iff [symmetric] list_all_iff .
  from default_fallback [of id ?r] none
  have "selected_wallpapers id ?r = default_wallpapers"
    and "image_url (generate_wallpaper id ?r) = Some (default_wallpapers ! 0)"
    by blast+
  with ex show ?thesis by (simp add: default_wallpapers_def)
qed

lemma selected_wallpaper_test:
  "selected_wallpaper ul test_data =
     Inr (str ''https://images.unsplash.com/photo-1441974231531-c6227db76b6e?w=512&h=910&fit=crop&auto=format'')"
  unfolding selected_wallpaper_def index_test selected_test
  by (simp add: sample_wallpapers_def py_getitem_def)

lemma selected_wallpapers_cong:
  fixes r1 :: "'a WallpaperRequest_scheme" and r2 :: "'b WallpaperRequest_scheme"
  assumes "WallpaperRequest.prompt r1 = WallpaperRequest.prompt r2" and "style r1 = style r2"
  shows "selected_wallpapers ul r1 = selected_wallpapers ul r2"
  using assms by (simp add: selected_wallpapers_def combined_text_def)

lemma selected_wallpaper_cong:
  fixes r1 :: "'a WallpaperRequest_scheme" and r2 :: "'b WallpaperRequest_scheme"
  assumes "WallpaperRequest.prompt r1 = WallpaperRequest.prompt r2" and "style r1 = style r2"
  shows "selected_wallpaper ul r1 = selected_wallpaper ul r2"
  unfolding selected_wallpaper_def wallpaper_index_def selected_wallpapers_cong [OF assms, of ul]
  using assms by simp

text \<open>
  C4 (aspect-ratio remap). The image of a completed response is the selected template
  after \<^verbatim>\<open>adjust_dimensions\<close>: for \<open>16:9\<close> the text \<open>w=512&h=910\<close> is replaced by
  \<open>w=910&h=512\<close> (landscape), for \<open>1:1\<close> by \<open>w=512&h=512\<close> (square), for \<open>3:4\<close>
  by \<open>w=512&h=683\<close> (portrait, another height); for \<open>9:16\<close>, for \<open>21:9\<close> and for
  every other value the template is returned as it is. The response echoes the
  requested aspect ratio, whether the handler completes or not.
\<close>

theorem aspect_ratio_remap:
  "(\<forall>w. selected_wallpaper ul r = Inr w \<longrightarrow>
      image_url (generate_wallpaper ul r)
        = Some (adjust_dimensions (WallpaperRequest.aspect_ratio r) w))
   \<and> adjust_dimensions (str ''16:9'') w
        = py_replace (str ''w=512&h=910'') (str ''w=910&h=512'') w
   \<and> adjust_dimensions (str ''1:1'') w
        = py_replace (str ''w=512&h=910'') (str ''w=512&h=512'') w
   \<and> adjust_dimensions (str ''3:4'') w
        = py_replace (str ''w=512&h=910'') (str ''w=512&h=683'') w
   \<and> adjust_dimensions (str ''9:16'') w = w
   \<and> adjust_dimensions (str ''21:9'') w = w
   \<and> (ratio \<noteq> str ''16:9'' \<and> ratio \<noteq> str ''1:1'' \<and> ratio \<noteq> str ''3:4''
        \<longrightarrow> adjust_dimensions ratio w = w)
   \<and> WallpaperResponse.aspect_ratio (generate_wallpaper ul r) = WallpaperRequest.aspect_ratio r"
proof -
  have "image_url (generate_wallpaper ul r)
        = Some (adjust_dimensions (WallpaperRequest.aspect_ratio r) w)"
    if "selected_wallpaper ul r = Inr w" for w
    using that by (simp add: generate_wallpaper_def)
  moreover have "WallpaperResponse.aspect_ratio (generate_wallpaper ul r)
                   = WallpaperRequest.aspect_ratio r"
    by (simp add: generate_wallpaper_def split: sum.splits)
  moreover have "adjust_dimensions (str ''9:16'') w = w" "adjust_dimensions (str ''21:9'') w = w"
    by (simp_all add: adjust_dimensions_def str_def)
  moreover have "adjust_dimensions (str ''1:1'') w
        = py_replace (str ''w=512&h=910'') (str ''w=512&h=512'') w"
     "adjust_dimensions (str ''3:4'') w
        = py_replace (str ''w=512&h=910'') (str ''w=512&h=683'') w"
    by (simp_all add: adjust_dimensions_def str_def)
  ultimately show ?thesis
    by (simp add: adjust_dimensions_def)
qed

theorem aspect_ratio_remap_witness:
  "selected_wallpaper id (test_data\<lparr>WallpaperRequest.aspect_ratio := str ''16:9''\<rparr>)
     = Inr (str ''https://images.unsplash.com/photo-1441974231531-c6227db76b6e?w=512&h=910&fit=crop&auto=format'')
   \<and> image_url (generate_wallpaper id (test_data\<lparr>WallpaperRequest.aspect_ratio := str ''16:9''\<rparr>))
     = Some (str ''https://images.unsplash.com/photo-1441974231531-c6227db76b6e?w=910&h=512&fit=crop&auto=format'')
   \<and> str ''21:9'' \<noteq> str ''16:9'' \<and> str ''21:9'' \<noteq> str ''1:1'' \<and> str ''21:9'' \<noteq> str ''3:4''
   \<and> adjust_dimensions (str ''21:9'')
        (str ''https://images.unsplash.com/photo-1441974231531-c6227db76b6e?w=512&h=910&fit=crop&auto=format'')
     = str ''https://images.unsplash.com/photo-1441974231531-c6227db76b6e?w=512&h=910&fit=crop&auto=format''
   \<and> WallpaperResponse.aspect_ratio
        (generate_wallpaper id (test_data\<lparr>WallpaperRequest.aspect_ratio := str ''21:9''\<rparr>))
     = str ''21:9''"
proof -
  let ?w = "str ''https://images.unsplash.com/photo-1441974231531-c6227db76b6e?w=512&h=910&fit=crop&auto=format''"
  let ?r = "test_data\<lparr>WallpaperRequest.aspect_ratio := str ''16:9''\<rparr>"
  have "selected_wallpaper id ?r = selected_wallpaper id test_data"
    by (rule selected_wallpaper_cong) simp_all
  then have sel: "selected_wallpaper id ?r = Inr ?w"
    by (simp add: selected_wallpaper_test)
  have ne: "str ''21:9'' \<noteq> str ''16:9'' \<and> str ''21:9'' \<noteq> str ''1:1'' \<and> str ''21:9'' \<noteq> str ''3:4''"
    by (simp add: str_def)
  have rep: "py_replace (str ''w=512&h=910'') (str ''w=910&h=512'') ?w
     = str ''https://images.unsplash.com/photo-1441974231531-c6227db76b6e?w=910&h=512&fit=crop&auto=format''"
    by (simp add: py_replace_def str_def)
  from aspect_ratio_remap [of id ?r ?w "str ''21:9''"] sel
  have "image_url (generate_wallpaper id ?r)
          = Some (adjust_dimensions (WallpaperRequest.aspect_ratio ?r) ?w)"
    and "adjust_dimensions (str ''16:9'') ?w
          = py_replace (str ''w=512&h=910'') (str ''w=910&h=512'') ?w"
    and "adjust_dimensions (str ''21:9'') ?w = ?w"
    by blast+
  moreover from aspect_ratio_remap [of id "test_data\<lparr>WallpaperRequest.aspect_ratio := str ''21:9''\<rparr>" ?w "str ''21:9''"]
  have "WallpaperResponse.aspect_ratio
        (generate_wallpaper id (test_data\<lparr>WallpaperRequest.aspect_ratio := str ''21:9''\<rparr>))
     = str ''21:9''" by simp
  ultimately show ?thesis using sel ne rep by simp
qed

text \<open>
  C5 (index bounds). For each bucket of the catalog and for the default bucket, which
  are all non-empty, and for every prompt: when an index is computed it lies between 0
  and the length of the bucket minus 1, so that indexing the bucket succeeds; no index
  is computed only when \<^verbatim>\<open>encode()\<close> raises. The bucket that the handler selects is
  one of these buckets, so its \<^verbatim>\<open>wallpaper_index\<close> is in range.
\<close>

theorem index_bounds:
  "(bucket \<in> set (default_wallpapers # map snd sample_wallpapers) \<longrightarrow>
      bucket \<noteq> []
      \<and> (case bucket_index p bucket of
           Inr i \<Rightarrow> 0 \<le> i \<and> i \<le> int (length bucket) - 1
                    \<and> py_getitem bucket i = Inr (bucket ! nat i)
         | Inl e \<Rightarrow> e = UnicodeEncodeError \<and> encode p = Inl UnicodeEncodeError))
   \<and> selected_wallpapers ul r \<in> set (default_wallpapers # map snd sample_wallpapers)
   \<and> (\<forall>i. wallpaper_index ul r = Inr i \<longrightarrow>
          0 \<le> i \<and> i \<le> int (length (selected_wallpapers ul r)) - 1)"
proof -
  have bound: "bucket \<noteq> []
      \<and> (case bucket_index p bucket of
           Inr i \<Rightarrow> 0 \<le> i \<and> i \<le> int (length bucket) - 1
                    \<and> py_getitem bucket i = Inr (bucket ! nat i)
         | Inl e \<Rightarrow> e = UnicodeEncodeError \<and> encode p = Inl UnicodeEncodeError)"
    if mem: "bucket \<in> set (default_wallpapers # map snd sample_wallpapers)"
    for bucket :: "pystr list" and p
  proof (cases "encode p")
    case (Inl e)
    then have "e = UnicodeEncodeError" by (rule encode_Inl)
    with Inl show ?thesis
      using buckets_nonempty [OF mem] by (simp add: bucket_index_Inl)
  next
    case (Inr data)
    have ne: "bucket \<noteq> []" by (rule buckets_nonempty [OF mem])
    let ?i = "uint (hd (md5 data)) mod int (length bucket)"
    have pos: "0 < int (length bucket)" using ne by simp
    then have "0 \<le> ?i" and lt: "?i < int (length bucket)" by simp_all
    moreover from this have "py_getitem bucket ?i = Inr (bucket ! nat ?i)"
      by (rule py_getitem_range)
    ultimately show ?thesis
      using ne by (simp add: bucket_index_Inr [OF Inr ne])
  qed
  have "0 \<le> i \<and> i \<le> int (length (selected_wallpapers ul r)) - 1"
    if "wallpaper_index ul r = Inr i" for i
    using bound [OF selected_wallpapers_mem, of ul r "WallpaperRequest.prompt r"] that
    by (simp add: wallpaper_index_def)
  with bound selected_wallpapers_mem show ?thesis by blast
qed

theorem index_bounds_witness:
  "default_wallpapers \<in> set (default_wallpapers # map snd sample_wallpapers)
   \<and> bucket_index (str ''quantum physics diagram'') default_wallpapers = Inr 0
   \<and> length default_wallpapers = 4
   \<and> py_getitem default_wallpapers 0 = Inr (default_wallpapers ! 0)
   \<and> wallpaper_index id test_data = Inr 1
   \<and> length (selected_wallpapers id test_data) = 3"
proof -
  have mem: "default_wallpapers \<in> set (default_wallpapers # map snd sample_wallpapers)"
    by simp
  have "py_getitem default_wallpapers 0 = Inr (default_wallpapers ! 0)"
    using index_bounds [of default_wallpapers "str ''quantum physics diagram''" id test_data] mem
    by (simp add: quantum_index)
  moreover have "length default_wallpapers = 4" by (simp add: default_wallpapers_def)
  moreover have "length (selected_wallpapers id test_data) = 3"
    by (simp add: selected_test sample_wallpapers_def)
  ultimately show ?thesis
    using mem by (simp add: quantum_index index_test)
qed

lemma generate_wallpaper_Inr:
  "selected_wallpaper ul r = Inr w \<Longrightarrow>
     generate_wallpaper ul r =
       \<lparr>success = True,
        image_url = Some (adjust_dimensions (WallpaperRequest.aspect_ratio r) w),
        prompt = WallpaperRequest.prompt r,
        aspect_ratio = WallpaperRequest.aspect_ratio r, error = None\<rparr>"
  by (simp add: generate_wallpaper_def)

lemma generate_wallpaper_Inl:
  "selected_wallpaper ul r = Inl e \<Longrightarrow>
     generate_wallpaper ul r =
       \<lparr>success = False, image_url = None,
        prompt = WallpaperRequest.prompt r,
        aspect_ratio = WallpaperRequest.aspect_ratio r, error = Some e\<rparr>"
  by (simp add: generate_wallpaper_def)

lemma selected_wallpaper_Inl_iff:
  "(\<exists>e. selected_wallpaper ul r = Inl e) \<longleftrightarrow> (\<exists>e. encode (WallpaperRequest.prompt r) = Inl e)"
proof (cases "encode (WallpaperRequest.prompt r)")
  case (Inl e)
  then show ?thesis by (simp add: selected_wallpaper_Inl)
next
  case (Inr data)
  then show ?thesis by (simp add: selected_wallpaper_Inr)
qed

lemma encode_Inl_iff:
  "(\<exists>e. encode p = Inl e) \<longleftrightarrow> list_ex (\<lambda>c. 0xD800 \<le> c \<and> c \<le> 0xDFFF) p"
proof -
  have "(\<exists>e. encode p = Inl e) \<longleftrightarrow> \<not> (\<exists>data. encode p = Inr data)"
    by (cases "encode p") simp_all
  then show ?thesis
    unfolding encode_Inr_iff list_ex_iff by (auto simp: not_less not_le)
qed

lemma surrogate_response:
  "generate_wallpaper ul
     \<lparr>WallpaperRequest.prompt = [0xD800], WallpaperRequest.aspect_ratio = str ''9:16'',
      style = None\<rparr> =
   \<lparr>success = False, image_url = None, prompt = [0xD800], aspect_ratio = str ''9:16'',
    error = Some UnicodeEncodeError\<rparr>"
proof -
  have "encode [0xD800] = Inl UnicodeEncodeError" by (simp add: utf8_char_def)
  then show ?thesis
    by (simp add: generate_wallpaper_def selected_wallpaper_Inl)
qed

lemma selected_wallpapers_default:
  assumes "\<forall>category \<in> set (map fst sample_wallpapers).
             \<not> (\<exists>a b. combined_text ul r = a @ category @ b)"
  shows "selected_wallpapers ul r = default_wallpapers"
proof -
  have "\<not> (case x of (category, wallpapers) \<Rightarrow> \<exists>a b. combined_text ul r = a @ category @ b)"
    if "x \<in> set sample_wallpapers" for x
  proof -
    from that have "fst x \<in> set (map fst sample_wallpapers)" by simp
    with assms have "\<not> (\<exists>a b. combined_text ul r = a @ fst x @ b)" by blast
    then show ?thesis by (simp add: case_prod_beta)
  qed
  then have "find (\<lambda>(category, wallpapers). \<exists>a b. combined_text ul r = a @ category @ b)
          sample_wallpapers = None"
    unfolding find_None_iff by blast
  then show ?thesis by (simp add: selected_wallpapers_find)
qed

lemma empty_index_default: "bucket_index (str '''') default_wallpapers = Inr 0"
  by (simp add: bucket_index_def ph_empty default_wallpapers_def)
     (simp add: str_def py_int16_def hex_value_def py_mod_def)

lemma empty_index_nature: "bucket_index (str '''') (snd (sample_wallpapers ! 0)) = Inr 2"
  by (simp add: bucket_index_def ph_empty sample_wallpapers_def)
     (simp add: str_def py_int16_def hex_value_def py_mod_def)

lemma empty_combined:
  "WallpaperRequest.prompt r = str '''' \<Longrightarrow>
   combined_text ul r
     = str '' '' @ py_lower ul (case style r of None \<Rightarrow> str '''' | Some s \<Rightarrow> s)"
  by (simp add: combined_text_def py_lower_def str_def)

lemma empty_default_response:
  assumes p: "WallpaperRequest.prompt r = str ''''"
    and sel: "selected_wallpapers ul r = default_wallpapers"
  shows "generate_wallpaper ul r =
           \<lparr>success = True,
            image_url = Some (adjust_dimensions (WallpaperRequest.aspect_ratio r)
                               (default_wallpapers ! 0)),
            prompt = str '''', aspect_ratio = WallpaperRequest.aspect_ratio r, error = None\<rparr>"
proof -
  have "py_getitem default_wallpapers 0 = Inr (default_wallpapers ! 0)"
    by (simp add: py_getitem_def default_wallpapers_def)
  then have "selected_wallpaper ul r = Inr (default_wallpapers ! 0)"
    by (simp add: selected_wallpaper_def wallpaper_index_def p sel empty_index_default)
  then show ?thesis using p by (simp add: generate_wallpaper_Inr)
qed

text \<open>
  C7 (totality), as stated, fails at two requests. The empty prompt with the style
  \<open>nature\<close> does not fall through to the default bucket: the matching text is
  a space followed by \<open>nature\<close>, the bucket of \<open>nature\<close> is selected and the image is its third
  template, which the default bucket does not hold. And the prompt that consists of
  the lone surrogate \<open>U+D800\<close> makes \<^verbatim>\<open>encode()\<close> raise, so that the handler answers
  \<open>success = False\<close>.
\<close>

theorem empty_prompt_counterexample:
  "selected_wallpapers id
     \<lparr>WallpaperRequest.prompt = str '''', WallpaperRequest.aspect_ratio = str ''9:16'',
      style = Some (str ''nature'')\<rparr> = snd (sample_wallpapers ! 0)
   \<and> snd (sample_wallpapers ! 0) \<noteq> default_wallpapers
   \<and> image_url (generate_wallpaper id
        \<lparr>WallpaperRequest.prompt = str '''', WallpaperRequest.aspect_ratio = str ''9:16'',
         style = Some (str ''nature'')\<rparr>)
       = Some (str ''https://images.unsplash.com/photo-1501594907352-04cda38ebc29?w=512&h=910&fit=crop&auto=format'')
   \<and> str ''https://images.unsplash.com/photo-1501594907352-04cda38ebc29?w=512&h=910&fit=crop&auto=format''
        \<notin> set default_wallpapers
   \<and> generate_wallpaper id
        \<lparr>WallpaperRequest.prompt = [0xD800], WallpaperRequest.aspect_ratio = str ''9:16'',
         style = None\<rparr>
       = \<lparr>success = False, image_url = None, prompt = [0xD800], aspect_ratio = str ''9:16'',
          error = Some UnicodeEncodeError\<rparr>"
proof -
  let ?r = "\<lparr>WallpaperRequest.prompt = str '''', WallpaperRequest.aspect_ratio = str ''9:16'',
             style = Some (str ''nature'')\<rparr>"
  have c: "combined_text id ?r = str '' nature''"
    by (simp add: combined_text_def py_lower_def lower_ascii_def str_def)
  have sel: "selected_wallpapers id ?r = snd (sample_wallpapers ! 0)"
    unfolding selected_wallpapers_def c by (simp add: sample_wallpapers_def str_def)
  have ne: "snd (sample_wallpapers ! 0) \<noteq> default_wallpapers"
    by (simp add: sample_wallpapers_def default_wallpapers_def)
  have "selected_wallpaper id ?r = py_getitem (snd (sample_wallpapers ! 0)) 2"
    by (simp add: selected_wallpaper_def wallpaper_index_def sel empty_index_nature)
  also have "\<dots> = Inr (str ''https://images.unsplash.com/photo-1501594907352-04cda38ebc29?w=512&h=910&fit=crop&auto=format'')"
    by (simp add: py_getitem_def sample_wallpapers_def)
  finally have "image_url (generate_wallpaper id ?r)
       = Some (str ''https://images.unsplash.com/photo-1501594907352-04cda38ebc29?w=512&h=910&fit=crop&auto=format'')"
    by (simp add: generate_wallpaper_Inr adjust_dimensions_def str_def)
  moreover have "str ''https://images.unsplash.com/photo-1501594907352-04cda38ebc29?w=512&h=910&fit=crop&auto=format''
        \<notin> set default_wallpapers"
    by (simp add: default_wallpapers_def str_def)
  ultimately show ?thesis
    using sel ne surrogate_response [of id] by simp
qed

text \<open>
  C7 (totality), amended. For every prompt without a surrogate code point, every style
  and every aspect ratio the handler completes: the response has \<open>success = True\<close> and
  its image is a template of the selected bucket with the dimensions adjusted. The empty
  prompt is such a prompt. Its matching text is a space followed by the lower-cased
  style, and its bucket is that of the first category, in the order of the catalog,
  whose name occurs in that text, the default bucket when none occurs, in particular
  when the style is absent; with the default bucket the image is the first default
  wallpaper.
\<close>

theorem generate_wallpaper_total:
  "(list_all (\<lambda>c. c < 0xD800 \<or> 0xDFFF < c) (WallpaperRequest.prompt r) \<longrightarrow>
      (\<exists>w \<in> set (selected_wallpapers ul r).
         generate_wallpaper ul r =
           \<lparr>success = True,
            image_url = Some (adjust_dimensions (WallpaperRequest.aspect_ratio r) w),
            prompt = WallpaperRequest.prompt r,
            aspect_ratio = WallpaperRequest.aspect_ratio r, error = None\<rparr>))
   \<and> (WallpaperRequest.prompt r = str '''' \<longrightarrow>
        combined_text ul r
          = str '' '' @ py_lower ul (case style r of None \<Rightarrow> str '''' | Some s \<Rightarrow> s)
        \<and> selected_wallpapers ul r
          = (case find (\<lambda>(category, wallpapers).
                     \<exists>a b. str '' '' @ py_lower ul (case style r of None \<Rightarrow> str '''' | Some s \<Rightarrow> s)
                             = a @ category @ b)
                   sample_wallpapers of
               None \<Rightarrow> default_wallpapers
             | Some (category, wallpapers) \<Rightarrow> wallpapers))
   \<and> (WallpaperRequest.prompt r = str ''''
        \<and> (\<forall>category \<in> set (map fst sample_wallpapers).
              \<not> (\<exists>a b. str '' '' @ py_lower ul (case style r of None \<Rightarrow> str '''' | Some s \<Rightarrow> s)
                          = a @ category @ b)) \<longrightarrow>
        selected_wallpapers ul r = default_wallpapers
        \<and> generate_wallpaper ul r =
            \<lparr>success = True,
             image_url = Some (adjust_dimensions (WallpaperRequest.aspect_ratio r)
                                (default_wallpapers ! 0)),
             prompt = str '''', aspect_ratio = WallpaperRequest.aspect_ratio r, error = None\<rparr>)
   \<and> (WallpaperRequest.prompt r = str '''' \<and> style r = None \<longrightarrow>
        selected_wallpapers ul r = default_wallpapers
        \<and> generate_wallpaper ul r =
            \<lparr>success = True,
             image_url = Some (adjust_dimensions (WallpaperRequest.aspect_ratio r)
                                (default_wallpapers ! 0)),
             prompt = str '''', aspect_ratio = WallpaperRequest.aspect_ratio r, error = None\<rparr>)"
proof -
  have total: "\<exists>w \<in> set (selected_wallpapers ul r).
         generate_wallpaper ul r =
           \<lparr>success = True,
            image_url = Some (adjust_dimensions (WallpaperRequest.aspect_ratio r) w),
            prompt = WallpaperRequest.prompt r,
            aspect_ratio = WallpaperRequest.aspect_ratio r, error = None\<rparr>"
    if "list_all (\<lambda>c. c < 0xD800 \<or> 0xDFFF < c) (WallpaperRequest.prompt r)"
  proof -
    from that obtain data where "encode (WallpaperRequest.prompt r) = Inr data"
      using encode_Inr_iff [of "WallpaperRequest.prompt r"] by (auto simp: list_all_iff)
    then obtain w where w: "selected_wallpaper ul r = Inr w"
      using selected_wallpaper_Inr by blast
    then have "w \<in> set (selected_wallpapers ul r)" by (rule selected_wallpaper_mem)
    with generate_wallpaper_Inr [OF w] show ?thesis by blast
  qed
  have dflt: "selected_wallpapers ul r = default_wallpapers
        \<and> generate_wallpaper ul r =
            \<lparr>success = True,
             image_url = Some (adjust_dimensions (WallpaperRequest.aspect_ratio r)
                                (default_wallpapers ! 0)),
             prompt = str '''', aspect_ratio = WallpaperRequest.aspect_ratio r, error = None\<rparr>"
    if p: "WallpaperRequest.prompt r = str ''''"
      and none: "\<forall>category \<in> set (map fst sample_wallpapers).
              \<not> (\<exists>a b. str '' '' @ py_lower ul (case style r of None \<Rightarrow> str '''' | Some s \<Rightarrow> s)
                          = a @ category @ b)"
  proof -
    have "selected_wallpapers ul r = default_wallpapers"
      using none by (intro selected_wallpapers_default) (simp only: empty_combined [OF p])
    with empty_default_response [OF p] show ?thesis by simp
  qed
  have absent: "selected_wallpapers ul r = default_wallpapers
        \<and> generate_wallpaper ul r =
            \<lparr>success = True,
             image_url = Some (adjust_dimensions (WallpaperRequest.aspect_ratio r)
                                (default_wallpapers ! 0)),
             prompt = str '''', aspect_ratio = WallpaperRequest.aspect_ratio r, error = None\<rparr>"
    if p: "WallpaperRequest.prompt r = str ''''" and s: "style r = None"
  proof -
    have "combined_text ul r = str '' ''"
      using empty_combined [OF p, of ul] s by (simp add: py_lower_def str_def)
    then have "selected_wallpapers ul r = default_wallpapers"
      by (simp add: selected_wallpapers_def sample_wallpapers_def str_def)
    with empty_default_response [OF p] show ?thesis by simp
  qed
  have first: "combined_text ul r
          = str '' '' @ py_lower ul (case style r of None \<Rightarrow> str '''' | Some s \<Rightarrow> s)
        \<and> selected_wallpapers ul r
          = (case find (\<lambda>(category, wallpapers).
                     \<exists>a b. str '' '' @ py_lower ul (case style r of None \<Rightarrow> str '''' | Some s \<Rightarrow> s)
                             = a @ category @ b)
                   sample_wallpapers of
               None \<Rightarrow> default_wallpapers
             | Some (category, wallpapers) \<Rightarrow> wallpapers)"
    if p: "WallpaperRequest.prompt r = str ''''"
    using selected_wallpapers_find [of ul r] by (simp only: empty_combined [OF p])
  from total first dflt absent show ?thesis by blast
qed

theorem generate_wallpaper_total_witness:
  "list_all (\<lambda>c. c < 0xD800 \<or> 0xDFFF < c) (str '''')
   \<and> generate_wallpaper id
        \<lparr>WallpaperRequest.prompt = str '''', WallpaperRequest.aspect_ratio = str ''9:16'',
         style = None\<rparr>
     = \<lparr>success = True,
        image_url = Some (str ''https://images.unsplash.com/photo-1506905925346-21bda4d32df4?w=512&h=910&fit=crop&auto=format''),
        prompt = str '''', aspect_ratio = str ''9:16'', error = None\<rparr>
   \<and> list_all (\<lambda>c. c < 0xD800 \<or> 0xDFFF < c)
        (str ''Beautiful sunset over mountains with purple sky'')
   \<and> success (generate_wallpaper id test_data)
   \<and> selected_wallpapers id
        \<lparr>WallpaperRequest.prompt = str '''', WallpaperRequest.aspect_ratio = str ''9:16'',
         style = Some (str ''City Nature'')\<rparr>
     = snd (sample_wallpapers ! 0)"
proof -
  let ?two = "\<lparr>WallpaperRequest.prompt = str '''', WallpaperRequest.aspect_ratio = str ''9:16'',
               style = Some (str ''City Nature'')\<rparr>"
  have low: "str '' '' @ py_lower id (case style ?two of None \<Rightarrow> str '''' | Some s \<Rightarrow> s)
               = str '' city nature''"
    by (simp add: py_lower_def lower_ascii_def str_def)
  have "find (\<lambda>(category, wallpapers). \<exists>a b. str '' city nature'' = a @ category @ b)
          sample_wallpapers = Some (sample_wallpapers ! 0)"
    unfolding py_in_iff [symmetric] by (simp add: sample_wallpapers_def str_def)
  moreover from generate_wallpaper_total [of ?two id]
  have "selected_wallpapers id ?two
          = (case find (\<lambda>(category, wallpapers).
                     \<exists>a b. str '' '' @ py_lower id (case style ?two of None \<Rightarrow> str '''' | Some s \<Rightarrow> s)
                             = a @ category @ b)
                   sample_wallpapers of
               None \<Rightarrow> default_wallpapers
             | Some (category, wallpapers) \<Rightarrow> wallpapers)"
    by simp
  ultimately have two: "selected_wallpapers id ?two = snd (sample_wallpapers ! 0)"
    unfolding low by (simp add: case_prod_beta)
  let ?r = "\<lparr>WallpaperRequest.prompt = str '''', WallpaperRequest.aspect_ratio = str ''9:16'',
             style = None\<rparr>"
  have e: "list_all (\<lambda>c. c < 0xD800 \<or> 0xDFFF < c) (str '''')" by (simp add: str_def)
  have t: "list_all (\<lambda>c. c < 0xD800 \<or> 0xDFFF < c)
             (str ''Beautiful sunset over mountains with purple sky'')"
    by (simp add: str_def)
  from generate_wallpaper_total [of ?r id]
  have "generate_wallpaper id ?r =
            \<lparr>success = True,
             image_url = Some (adjust_dimensions (WallpaperRequest.aspect_ratio ?r)
                                (default_wallpapers ! 0)),
             prompt = str '''', aspect_ratio = WallpaperRequest.aspect_ratio ?r, error = None\<rparr>"
    by simp
  then have r: "generate_wallpaper id ?r
     = \<lparr>success = True,
        image_url = Some (str ''https://images.unsplash.com/photo-1506905925346-21bda4d32df4?w=512&h=910&fit=crop&auto=format''),
        prompt = str '''', aspect_ratio = str ''9:16'', error = None\<rparr>"
    by (simp add: default_wallpapers_def adjust_dimensions_def str_def)
  from generate_wallpaper_total [of test_data id] t
  have "success (generate_wallpaper id test_data)"
    by (auto simp: test_data_def)
  with e t r two show ?thesis by simp
qed

text \<open>
  C8 (wire shape). When the \<^verbatim>\<open>try\<close> block completes the response has
  \<open>success = True\<close>, the image, and the prompt and aspect ratio of the request; when a
  statement raises \<open>e\<close> the response has \<open>success = False\<close>, no image, \<open>e\<close> as its
  error and again the prompt and aspect ratio of the request. \<open>success\<close> is false
  exactly when an exception is caught, which is exactly when the prompt holds a
  surrogate code point, and the exception then is \<^verbatim>\<open>UnicodeEncodeError\<close>.
\<close>

theorem wire_shape:
  "(\<forall>w. selected_wallpaper ul r = Inr w \<longrightarrow>
      generate_wallpaper ul r =
        \<lparr>success = True,
         image_url = Some (adjust_dimensions (WallpaperRequest.aspect_ratio r) w),
         prompt = WallpaperRequest.prompt r,
         aspect_ratio = WallpaperRequest.aspect_ratio r, error = None\<rparr>)
   \<and> (\<forall>e. selected_wallpaper ul r = Inl e \<longrightarrow>
      generate_wallpaper ul r =
        \<lparr>success = False, image_url = None,
         prompt = WallpaperRequest.prompt r,
         aspect_ratio = WallpaperRequest.aspect_ratio r, error = Some e\<rparr>)
   \<and> (\<not> success (generate_wallpaper ul r) \<longleftrightarrow> (\<exists>e. selected_wallpaper ul r = Inl e))
   \<and> (\<not> success (generate_wallpaper ul r) \<longleftrightarrow>
        list_ex (\<lambda>c. 0xD800 \<le> c \<and> c \<le> 0xDFFF) (WallpaperRequest.prompt r))
   \<and> (\<not> success (generate_wallpaper ul r) \<longrightarrow>
        error (generate_wallpaper ul r) = Some UnicodeEncodeError)
   \<and> WallpaperResponse.prompt (generate_wallpaper ul r) = WallpaperRequest.prompt r
   \<and> WallpaperResponse.aspect_ratio (generate_wallpaper ul r) = WallpaperRequest.aspect_ratio r"
proof -
  have f: "\<not> success (generate_wallpaper ul r) \<longleftrightarrow> (\<exists>e. selected_wallpaper ul r = Inl e)"
    by (cases "selected_wallpaper ul r") (simp_all add: generate_wallpaper_def)
  then have s: "\<not> success (generate_wallpaper ul r) \<longleftrightarrow>
        list_ex (\<lambda>c. 0xD800 \<le> c \<and> c \<le> 0xDFFF) (WallpaperRequest.prompt r)"
    by (simp only: selected_wallpaper_Inl_iff encode_Inl_iff)
  have e: "error (generate_wallpaper ul r) = Some UnicodeEncodeError"
    if "\<not> success (generate_wallpaper ul r)"
  proof -
    from that f obtain e where sel: "selected_wallpaper ul r = Inl e" by blast
    have "e = UnicodeEncodeError"
    proof (cases "encode (WallpaperRequest.prompt r)")
      case (Inl e')
      then have "e' = UnicodeEncodeError" by (rule encode_Inl)
      with Inl sel show ?thesis by (simp add: selected_wallpaper_Inl)
    next
      case (Inr data)
      with sel show ?thesis by (simp add: selected_wallpaper_Inr)
    qed
    with sel show ?thesis by (simp add: generate_wallpaper_Inl)
  qed
  have "WallpaperResponse.prompt (generate_wallpaper ul r) = WallpaperRequest.prompt r"
    and "WallpaperResponse.aspect_ratio (generate_wallpaper ul r) = WallpaperRequest.aspect_ratio r"
    by (simp_all add: generate_wallpaper_def split: sum.splits)
  with f s e generate_wallpaper_Inr [of ul r] generate_wallpaper_Inl [of ul r]
  show ?thesis by blast
qed

theorem wire_shape_witness:
  "generate_wallpaper id test_data =
     \<lparr>success = True,
      image_url = Some (str ''https://images.unsplash.com/photo-1441974231531-c6227db76b6e?w=512&h=910&fit=crop&auto=format''),
      prompt = str ''Beautiful sunset over mountains with purple sky'',
      aspect_ratio = str ''9:16'', error = None\<rparr>
   \<and> generate_wallpaper id
        \<lparr>WallpaperRequest.prompt = [0xD800], WallpaperRequest.aspect_ratio = str ''9:16'',
         style = None\<rparr> =
     \<lparr>success = False, image_url = None, prompt = [0xD800], aspect_ratio = str ''9:16'',
      error = Some UnicodeEncodeError\<rparr>"
proof -
  let ?bad = "\<lparr>WallpaperRequest.prompt = [0xD800], WallpaperRequest.aspect_ratio = str ''9:16'',
               style = None\<rparr>"
  have ok: "selected_wallpaper id test_data =
     Inr (str ''https://images.unsplash.com/photo-1441974231531-c6227db76b6e?w=512&h=910&fit=crop&auto=format'')"
    by (rule selected_wallpaper_test)
  have "encode [0xD800] = Inl UnicodeEncodeError" by (simp add: utf8_char_def)
  then have bad: "selected_wallpaper id ?bad = Inl UnicodeEncodeError"
    by (simp add: selected_wallpaper_Inl)
  from wire_shape [of id test_data] ok
  have "generate_wallpaper id test_data =
        \<lparr>success = True,
         image_url = Some (adjust_dimensions (WallpaperRequest.aspect_ratio test_data)
            (str ''https://images.unsplash.com/photo-1441974231531-c6227db76b6e?w=512&h=910&fit=crop&auto=format'')),
         prompt = WallpaperRequest.prompt test_data,
         aspect_ratio = WallpaperRequest.aspect_ratio test_data, error = None\<rparr>"
    by blast
  moreover from wire_shape [of id ?bad] bad
  have "generate_wallpaper id ?bad =
        \<lparr>success = False, image_url = None,
         prompt = WallpaperRequest.prompt ?bad,
         aspect_ratio = WallpaperRequest.aspect_ratio ?bad, error = Some UnicodeEncodeError\<rparr>"
    by blast
  ultimately show ?thesis
    by (simp add: test_data_def adjust_dimensions_def str_def)
qed

text \<open>
  C9 (exclusive fields). A response of the handler with \<open>success = True\<close> has no error
  and has an image; a response with \<open>success = False\<close> has no image (and has an error);
  no response has both an error and an image.
\<close>

theorem success_error_exclusive:
  "(success (generate_wallpaper ul r) \<longrightarrow>
      error (generate_wallpaper ul r) = None \<and> image_url (generate_wallpaper ul r) \<noteq> None)
   \<and> (\<not> success (generate_wallpaper ul r) \<longrightarrow>
      image_url (generate_wallpaper ul r) = None \<and> error (generate_wallpaper ul r) \<noteq> None)
   \<and> \<not> (error (generate_wallpaper ul r) \<noteq> None \<and> image_url (generate_wallpaper ul r) \<noteq> None)"
  by (cases "selected_wallpaper ul r") (simp_all add: generate_wallpaper_def)

theorem success_error_exclusive_witness:
  "success (generate_wallpaper id test_data)
   \<and> error (generate_wallpaper id test_data) = None
   \<and> image_url (generate_wallpaper id test_data) \<noteq> None
   \<and> \<not> success (generate_wallpaper id
        \<lparr>WallpaperRequest.prompt = [0xD800], WallpaperRequest.aspect_ratio = str ''9:16'',
         style = None\<rparr>)
   \<and> image_url (generate_wallpaper id
        \<lparr>WallpaperRequest.prompt = [0xD800], WallpaperRequest.aspect_ratio = str ''9:16'',
         style = None\<rparr>) = None"
proof -
  let ?bad = "\<lparr>WallpaperRequest.prompt = [0xD800], WallpaperRequest.aspect_ratio = str ''9:16'',
               style = None\<rparr>"
  have ok: "success (generate_wallpaper id test_data)" by (simp add: response_test)
  have bad: "\<not> success (generate_wallpaper id ?bad)" by (simp add: surrogate_response)
  from success_error_exclusive [of id test_data] ok
  have "error (generate_wallpaper id test_data) = None"
    and "image_url (generate_wallpaper id test_data) \<noteq> None" by blast+
  moreover from success_error_exclusive [of id ?bad] bad
  have "image_url (generate_wallpaper id ?bad) = None" by blast
  ultimately show ?thesis using ok bad by blast
qed

lemma replace_at_skip:
  "o1 \<notin> set pre \<Longrightarrow> replace_at (o1 # os) new (pre @ s) = pre @ replace_at (o1 # os) new s"
  by (induction pre) auto

lemma startswith_append: "startswith (p @ s) p"
  by (simp add: startswith_iff)

lemma replace_at_hit:
  "replace_at (o1 # os) new ((o1 # os) @ s) = new @ replace_at (o1 # os) new s"
  using startswith_append [of os s] by simp

lemma replace_at_once:
  assumes "o1 \<notin> set pre" and "o1 \<notin> set post"
  shows "replace_at (o1 # os) new (pre @ (o1 # os) @ post) = pre @ new @ post"
proof -
  have "replace_at (o1 # os) new post = post"
    using replace_at_skip [OF assms(2), of os new "[]"] by simp
  then show ?thesis
    by (simp only: replace_at_skip [OF assms(1)] replace_at_hit)
qed

lemma templates_checked:
  "list_all (\<lambda>t. t = take (length t - 32) t @ str ''w=512&h=910'' @ str ''&fit=crop&auto=format''
                    \<and> list_all (\<lambda>c. c \<noteq> 119) (take (length t - 32) t))
     (concat (default_wallpapers # map snd sample_wallpapers))"
  by (simp add: default_wallpapers_def sample_wallpapers_def str_def)

lemma template_split:
  assumes "t \<in> set (concat (default_wallpapers # map snd sample_wallpapers))"
  obtains pre where "t = pre @ str ''w=512&h=910'' @ str ''&fit=crop&auto=format''"
    and "119 \<notin> set pre"
proof -
  from templates_checked assms
  have "t = take (length t - 32) t @ str ''w=512&h=910'' @ str ''&fit=crop&auto=format''
        \<and> list_all (\<lambda>c. c \<noteq> 119) (take (length t - 32) t)"
    unfolding list_all_iff [of _ "concat (default_wallpapers # map snd sample_wallpapers)"]
    by blast
  then have "t = take (length t - 32) t @ str ''w=512&h=910'' @ str ''&fit=crop&auto=format''"
    and "119 \<notin> set (take (length t - 32) t)"
    by (auto simp: list_all_iff)
  then show ?thesis by (rule that)
qed

lemma adjust_dimensions_split:
  assumes "119 \<notin> set pre"
  shows "adjust_dimensions (str ''16:9'') (pre @ str ''w=512&h=910'' @ str ''&fit=crop&auto=format'')
           = pre @ str ''w=910&h=512'' @ str ''&fit=crop&auto=format''"
    and "adjust_dimensions (str ''1:1'') (pre @ str ''w=512&h=910'' @ str ''&fit=crop&auto=format'')
           = pre @ str ''w=512&h=512'' @ str ''&fit=crop&auto=format''"
    and "adjust_dimensions (str ''3:4'') (pre @ str ''w=512&h=910'' @ str ''&fit=crop&auto=format'')
           = pre @ str ''w=512&h=683'' @ str ''&fit=crop&auto=format''"
proof -
  have post: "119 \<notin> set (str ''&fit=crop&auto=format'')" by (simp add: str_def)
  have old: "str ''w=512&h=910'' = 119 # str ''=512&h=910''" by (simp add: str_def)
  have r: "py_replace (str ''w=512&h=910'') new
             (pre @ str ''w=512&h=910'' @ str ''&fit=crop&auto=format'')
           = pre @ new @ str ''&fit=crop&auto=format''" for new
    unfolding old py_replace_def using replace_at_once [OF assms post] by simp
  have ne: "str ''1:1'' \<noteq> str ''16:9''" "str ''3:4'' \<noteq> str ''16:9''" "str ''3:4'' \<noteq> str ''1:1''"
    by (simp_all add: str_def)
  show "adjust_dimensions (str ''16:9'') (pre @ str ''w=512&h=910'' @ str ''&fit=crop&auto=format'')
           = pre @ str ''w=910&h=512'' @ str ''&fit=crop&auto=format''"
    by (simp add: adjust_dimensions_def r)
  show "adjust_dimensions (str ''1:1'') (pre @ str ''w=512&h=910'' @ str ''&fit=crop&auto=format'')
           = pre @ str ''w=512&h=512'' @ str ''&fit=crop&auto=format''"
    by (simp add: adjust_dimensions_def r ne)
  show "adjust_dimensions (str ''3:4'') (pre @ str ''w=512&h=910'' @ str ''&fit=crop&auto=format'')
           = pre @ str ''w=512&h=683'' @ str ''&fit=crop&auto=format''"
    by (simp add: adjust_dimensions_def r ne)
qed

text \<open>
  C10 (the substitution applies). Every template of every bucket, the default bucket
  included, is some \<open>pre\<close>, then \<open>w=512&h=910\<close>, then some \<open>post\<close>, and for \<open>16:9\<close>, \<open>1:1\<close> and \<open>3:4\<close> the
  adjusted URL is \<open>pre\<close>, the new dimensions and \<open>post\<close>: it differs from the template,
  and in that substring only.
\<close>

theorem templates_rewritten:
  assumes "t \<in> set (concat (default_wallpapers # map snd sample_wallpapers))"
  shows "\<exists>pre post.
           t = pre @ str ''w=512&h=910'' @ post
           \<and> adjust_dimensions (str ''16:9'') t = pre @ str ''w=910&h=512'' @ post
           \<and> adjust_dimensions (str ''1:1'') t = pre @ str ''w=512&h=512'' @ post
           \<and> adjust_dimensions (str ''3:4'') t = pre @ str ''w=512&h=683'' @ post
           \<and> adjust_dimensions (str ''16:9'') t \<noteq> t
           \<and> adjust_dimensions (str ''1:1'') t \<noteq> t
           \<and> adjust_dimensions (str ''3:4'') t \<noteq> t"
proof -
  let ?post = "str ''&fit=crop&auto=format''"
  from assms obtain pre where t: "t = pre @ str ''w=512&h=910'' @ ?post" and w: "119 \<notin> set pre"
    by (rule template_split)
  note a = adjust_dimensions_split [OF w]
  have d: "str ''w=910&h=512'' \<noteq> str ''w=512&h=910''" "str ''w=512&h=512'' \<noteq> str ''w=512&h=910''"
    "str ''w=512&h=683'' \<noteq> str ''w=512&h=910''"
    by (simp_all add: str_def)
  have "adjust_dimensions (str ''16:9'') t = pre @ str ''w=910&h=512'' @ ?post"
    and "adjust_dimensions (str ''1:1'') t = pre @ str ''w=512&h=512'' @ ?post"
    and "adjust_dimensions (str ''3:4'') t = pre @ str ''w=512&h=683'' @ ?post"
    unfolding t by (rule a)+
  moreover from this have "adjust_dimensions (str ''16:9'') t \<noteq> t"
    and "adjust_dimensions (str ''1:1'') t \<noteq> t"
    and "adjust_dimensions (str ''3:4'') t \<noteq> t"
    using d unfolding t by simp_all
  ultimately show ?thesis using t by blast
qed

theorem templates_rewritten_witness:
  "default_wallpapers ! 0 \<in> set (concat (default_wallpapers # map snd sample_wallpapers))
   \<and> py_in (str ''w=512&h=910'') (default_wallpapers ! 0)
   \<and> adjust_dimensions (str ''16:9'') (default_wallpapers ! 0) \<noteq> default_wallpapers ! 0
   \<and> adjust_dimensions (str ''1:1'') (default_wallpapers ! 0) \<noteq> default_wallpapers ! 0
   \<and> adjust_dimensions (str ''3:4'') (default_wallpapers ! 0) \<noteq> default_wallpapers ! 0"
proof -
  have mem: "default_wallpapers ! 0 \<in> set (concat (default_wallpapers # map snd sample_wallpapers))"
    by (simp add: default_wallpapers_def)
  from templates_rewritten [OF mem] mem show ?thesis
    unfolding py_in_iff by blast
qed

end
